theory Spec2Isabelle
  imports Complex_Main
begin

section \<open>Numbers and arrays\<close>

text \<open>
  The module \<^verbatim>\<open>ion_functions/data/vel_functions.py\<close> works on Python numbers and on
  numpy arrays of doubles. A double is idealised as a real number or NaN: comparisons
  with NaN are false, arithmetic with NaN gives NaN, and finite arithmetic is exact
  (rounding, overflow and the infinities are outside the model).
\<close>

datatype pyfloat = NaN | Fin real

fun fl_lt :: "pyfloat \<Rightarrow> pyfloat \<Rightarrow> bool" where
  "fl_lt (Fin a) (Fin b) = (a < b)"
| "fl_lt _ _ = False"

fun fl_le :: "pyfloat \<Rightarrow> pyfloat \<Rightarrow> bool" where
  "fl_le (Fin a) (Fin b) = (a \<le> b)"
| "fl_le _ _ = False"

definition fl_gt :: "pyfloat \<Rightarrow> pyfloat \<Rightarrow> bool" where
  "fl_gt a b = fl_lt b a"

fun fl_mul :: "pyfloat \<Rightarrow> pyfloat \<Rightarrow> pyfloat" where
  "fl_mul (Fin a) (Fin b) = Fin (a * b)"
| "fl_mul _ _ = NaN"

text \<open>
  Division is used by the module with the divisor \<open>100.\<close> only; a zero divisor, where a
  double would be infinite, is mapped to NaN.
\<close>

fun fl_div :: "pyfloat \<Rightarrow> pyfloat \<Rightarrow> pyfloat" where
  "fl_div (Fin a) (Fin b) = (if b = 0 then NaN else Fin (a / b))"
| "fl_div _ _ = NaN"

text \<open>
  A numpy array is its shape and its elements in row-major order; a well-formed array
  has as many elements as its shape says. A Python value is a built-in number (which has
  no attribute \<^verbatim>\<open>shape\<close> and is no instance of \<^verbatim>\<open>np.ndarray\<close>) or an array.
\<close>

record ndarray =
  shape :: "nat list"
  data :: "pyfloat list"

definition wf_array :: "ndarray \<Rightarrow> bool" where
  "wf_array a = (length (data a) = prod_list (shape a))"

datatype pyval = PyFloat pyfloat | NDArray ndarray

datatype error = AttributeError | ValueError | ProviderError string

text \<open>\<^verbatim>\<open>u.shape\<close>: an attribute of arrays only.\<close>

fun py_shape :: "pyval \<Rightarrow> error + nat list" where
  "py_shape (NDArray a) = Inr (shape a)"
| "py_shape (PyFloat x) = Inl AttributeError"

text \<open>
  \<^verbatim>\<open>a > c\<close> and \<^verbatim>\<open>a < c\<close> on an array give the array of the element-wise answers;
  \<^verbatim>\<open>np.any\<close> asks whether one of them is true.
\<close>

definition np_gt :: "ndarray \<Rightarrow> pyfloat \<Rightarrow> bool list" where
  "np_gt a c = map (\<lambda>x. fl_gt x c) (data a)"

definition np_lt :: "ndarray \<Rightarrow> pyfloat \<Rightarrow> bool list" where
  "np_lt a c = map (\<lambda>x. fl_lt x c) (data a)"

definition np_any :: "bool list \<Rightarrow> bool" where
  "np_any bs = list_ex (\<lambda>b. b) bs"

text \<open>
  \<^verbatim>\<open>np.ones(shape, dtype=np.float)\<close>, where \<^verbatim>\<open>np.float\<close> is the built-in \<^verbatim>\<open>float\<close> as in
  the numpy the module was written for, and the product and the quotient of an array and
  a number.
\<close>

definition np_ones :: "nat list \<Rightarrow> ndarray" where
  "np_ones shp = \<lparr>shape = shp, data = replicate (prod_list shp) (Fin 1)\<rparr>"

definition np_mul_scalar :: "ndarray \<Rightarrow> pyfloat \<Rightarrow> ndarray" where
  "np_mul_scalar a c = a\<lparr>data := map (\<lambda>x. fl_mul x c) (data a)\<rparr>"

definition np_div_scalar :: "ndarray \<Rightarrow> pyfloat \<Rightarrow> ndarray" where
  "np_div_scalar a c = a\<lparr>data := map (\<lambda>x. fl_div x c) (data a)\<rparr>"

section \<open>The coordinate validators\<close>

fun valid_lat :: "pyval \<Rightarrow> bool" where
  "valid_lat (NDArray lat) =
     (if np_any (np_gt lat (Fin 90)) \<or> np_any (np_lt lat (Fin (- 90))) then False
      else True)"
| "valid_lat (PyFloat lat) = (fl_le (Fin (- 90)) lat \<and> fl_le lat (Fin 90))"

fun valid_lon :: "pyval \<Rightarrow> bool" where
  "valid_lon (NDArray lon) =
     (if np_any (np_gt lon (Fin 180)) \<or> np_any (np_lt lon (Fin (- 180))) then False
      else True)"
| "valid_lon (PyFloat lon) = (fl_le (Fin (- 180)) lon \<and> fl_le lon (Fin 180))"

section \<open>Broadcasting and \<^verbatim>\<open>np.vectorize\<close>\<close>

text \<open>
  numpy aligns two shapes at their last dimension; two dimensions fit when they are equal
  or one of them is 1, and a missing leading dimension counts as 1. \<open>broadcast_dims\<close>
  works on the reversed shapes.
\<close>

fun broadcast_dims :: "nat list \<Rightarrow> nat list \<Rightarrow> nat list option" where
  "broadcast_dims [] ys = Some ys"
| "broadcast_dims (x # xs) [] = Some (x # xs)"
| "broadcast_dims (x # xs) (y # ys) =
     (if x = y then map_option ((#) x) (broadcast_dims xs ys)
      else if x = 1 then map_option ((#) y) (broadcast_dims xs ys)
      else if y = 1 then map_option ((#) x) (broadcast_dims xs ys)
      else None)"

definition broadcast_shapes :: "nat list \<Rightarrow> nat list \<Rightarrow> nat list option" where
  "broadcast_shapes s t = map_option rev (broadcast_dims (rev s) (rev t))"

definition broadcast_shapes3 :: "nat list \<Rightarrow> nat list \<Rightarrow> nat list \<Rightarrow> nat list option" where
  "broadcast_shapes3 r s t =
     (case broadcast_shapes r s of None \<Rightarrow> None | Some rs \<Rightarrow> broadcast_shapes rs t)"

text \<open>
  \<open>broadcast_to s t d\<close>: the elements \<open>d\<close> of an array of shape \<open>s\<close>, repeated to the
  shape \<open>t\<close> that \<open>s\<close> broadcasts to. A leading dimension that \<open>s\<close> lacks, or has as 1,
  repeats the array; a dimension they share splits it into its rows.
\<close>

fun broadcast_to :: "nat list \<Rightarrow> nat list \<Rightarrow> 'a list \<Rightarrow> 'a list" where
  "broadcast_to s [] d = d"
| "broadcast_to [] (m # t) d = concat (replicate m (broadcast_to [] t d))"
| "broadcast_to (n # s) (m # t) d =
     (if length (n # s) < length (m # t) then
        concat (replicate m (broadcast_to (n # s) t d))
      else if n = m then
        concat (map (\<lambda>i. broadcast_to s t (take (prod_list s) (drop (i * prod_list s) d)))
                    [0..<n])
      else concat (replicate m (broadcast_to s t d)))"

text \<open>\<^verbatim>\<open>np.asarray\<close>: a number becomes the array of shape \<open>()\<close> holding it.\<close>

fun np_asarray :: "pyval \<Rightarrow> ndarray" where
  "np_asarray (NDArray a) = a"
| "np_asarray (PyFloat x) = \<lparr>shape = [], data = [x]\<rparr>"

definition np_size :: "ndarray \<Rightarrow> nat" where
  "np_size a = prod_list (shape a)"

text \<open>
  \<^verbatim>\<open>np.vectorize(f)(theta, u, v)\<close> for an \<open>f\<close> of three numbers that returns a pair:
  the arguments are broadcast against each other and \<open>f\<close> is applied element by element;
  the result is a pair of arrays of the broadcast shape. numpy calls \<open>f\<close> on the first
  elements to find the output types and raises \<^verbatim>\<open>ValueError\<close> when an argument has no
  element, as it does when the shapes do not fit.
\<close>

definition np_vectorize ::
  "(pyfloat \<Rightarrow> pyfloat \<Rightarrow> pyfloat \<Rightarrow> pyfloat \<times> pyfloat) \<Rightarrow> pyval \<Rightarrow> pyval \<Rightarrow> pyval
     \<Rightarrow> error + ndarray \<times> ndarray" where
  "np_vectorize f theta u v =
     (let a = np_asarray theta; b = np_asarray u; c = np_asarray v in
      if np_size a = 0 \<or> np_size b = 0 \<or> np_size c = 0 then Inl ValueError
      else
        (case broadcast_shapes3 (shape a) (shape b) (shape c) of
           None \<Rightarrow> Inl ValueError
         | Some shp \<Rightarrow>
             (let r = map (\<lambda>(t, x, y). f t x y)
                          (zip (broadcast_to (shape a) shp (data a))
                               (zip (broadcast_to (shape b) shp (data b))
                                    (broadcast_to (shape c) shp (data c))))
              in Inr (\<lparr>shape = shp, data = map fst r\<rparr>, \<lparr>shape = shp, data = map snd r\<rparr>))))"

section \<open>The orchestrator\<close>

text \<open>
  \<^verbatim>\<open>magnetic_declination\<close> and \<^verbatim>\<open>magnetic_correction\<close> are imported from
  \<^verbatim>\<open>ion_functions.data.generic_functions\<close>, whose source is not available, so the
  functions of this module take them as parameters. The declination lookup is an
  external collaborator: it reads a state \<open>'s\<close> that the module never sees, may change
  it, and may raise. The rotation corrector is a function of three numbers.

  Arguments with a default value are options: \<open>None\<close> is the argument left out.
\<close>

type_synonym 's declination_fn =
  "pyval \<Rightarrow> pyval \<Rightarrow> pyval \<Rightarrow> pyval \<Rightarrow> int \<Rightarrow> 's \<Rightarrow> (error + pyval) \<times> 's"

type_synonym correction_fn = "pyfloat \<Rightarrow> pyfloat \<Rightarrow> pyfloat \<Rightarrow> pyfloat \<times> pyfloat"

definition vel_mag_correction ::
  "'s declination_fn \<Rightarrow> correction_fn \<Rightarrow> pyval \<Rightarrow> pyval \<Rightarrow> pyval \<Rightarrow> pyval \<Rightarrow> pyval
     \<Rightarrow> pyval option \<Rightarrow> int option \<Rightarrow> 's \<Rightarrow> (error + ndarray \<times> ndarray) \<times> 's" where
  "vel_mag_correction magnetic_declination magnetic_correction
       u v lat lon ntp_timestamp z zflag s =
     (let z = (case z of None \<Rightarrow> PyFloat (Fin 0) | Some z' \<Rightarrow> z');
          zflag = (case zflag of None \<Rightarrow> - 1 | Some f \<Rightarrow> f)
      in case magnetic_declination lat lon ntp_timestamp z zflag s of
           (Inl e, s') \<Rightarrow> (Inl e, s')
         | (Inr theta, s') \<Rightarrow>
             (case np_vectorize magnetic_correction theta u v of
                Inl e \<Rightarrow> (Inl e, s')
              | Inr (u_cor, v_cor) \<Rightarrow> (Inr (u_cor, v_cor), s')))"

section \<open>The instrument adapters\<close>

definition nobska_mag_corr_east ::
  "'s declination_fn \<Rightarrow> correction_fn \<Rightarrow> pyval \<Rightarrow> pyval \<Rightarrow> pyval \<Rightarrow> pyval \<Rightarrow> pyval
     \<Rightarrow> pyval option \<Rightarrow> 's \<Rightarrow> (error + ndarray) \<times> 's" where
  "nobska_mag_corr_east magnetic_declination magnetic_correction u v lat lon timestamp z s =
     (let z = (case z of None \<Rightarrow> PyFloat (Fin 0) | Some z' \<Rightarrow> z') in
      if \<not> valid_lat lat \<or> \<not> valid_lon lon then
        (case py_shape u of
           Inl e \<Rightarrow> (Inl e, s)
         | Inr shp \<Rightarrow> (Inr (np_mul_scalar (np_ones shp) (Fin (- 9999))), s))
      else
        (case vel_mag_correction magnetic_declination magnetic_correction
                u v lat lon timestamp (Some z) None s of
           (Inl e, s') \<Rightarrow> (Inl e, s')
         | (Inr (u_cor, v_cor), s') \<Rightarrow> (Inr (np_div_scalar u_cor (Fin 100)), s')))"

definition nobska_mag_corr_north ::
  "'s declination_fn \<Rightarrow> correction_fn \<Rightarrow> pyval \<Rightarrow> pyval \<Rightarrow> pyval \<Rightarrow> pyval \<Rightarrow> pyval
     \<Rightarrow> pyval option \<Rightarrow> 's \<Rightarrow> (error + ndarray) \<times> 's" where
  "nobska_mag_corr_north magnetic_declination magnetic_correction u v lat lon timestamp z s =
     (let z = (case z of None \<Rightarrow> PyFloat (Fin 0) | Some z' \<Rightarrow> z') in
      if \<not> valid_lat lat \<or> \<not> valid_lon lon then
        (case py_shape u of
           Inl e \<Rightarrow> (Inl e, s)
         | Inr shp \<Rightarrow> (Inr (np_mul_scalar (np_ones shp) (Fin (- 9999))), s))
      else
        (case vel_mag_correction magnetic_declination magnetic_correction
                u v lat lon timestamp (Some z) None s of
           (Inl e, s') \<Rightarrow> (Inl e, s')
         | (Inr (u_cor, v_cor), s') \<Rightarrow> (Inr (np_div_scalar v_cor (Fin 100)), s')))"

definition nortek_mag_corr_east ::
  "'s declination_fn \<Rightarrow> correction_fn \<Rightarrow> pyval \<Rightarrow> pyval \<Rightarrow> pyval \<Rightarrow> pyval \<Rightarrow> pyval
     \<Rightarrow> pyval option \<Rightarrow> 's \<Rightarrow> (error + ndarray) \<times> 's" where
  "nortek_mag_corr_east magnetic_declination magnetic_correction u v lat lon timestamp z s =
     (let z = (case z of None \<Rightarrow> PyFloat (Fin 0) | Some z' \<Rightarrow> z') in
      if \<not> valid_lat lat \<or> \<not> valid_lon lon then
        (case py_shape u of
           Inl e \<Rightarrow> (Inl e, s)
         | Inr shp \<Rightarrow> (Inr (np_mul_scalar (np_ones shp) (Fin (- 9999))), s))
      else
        (case vel_mag_correction magnetic_declination magnetic_correction
                u v lat lon timestamp (Some z) None s of
           (Inl e, s') \<Rightarrow> (Inl e, s')
         | (Inr (u_cor, v_cor), s') \<Rightarrow> (Inr u_cor, s')))"

definition nortek_mag_corr_north ::
  "'s declination_fn \<Rightarrow> correction_fn \<Rightarrow> pyval \<Rightarrow> pyval \<Rightarrow> pyval \<Rightarrow> pyval \<Rightarrow> pyval
     \<Rightarrow> pyval option \<Rightarrow> 's \<Rightarrow> (error + ndarray) \<times> 's" where
  "nortek_mag_corr_north magnetic_declination magnetic_correction u v lat lon timestamp z s =
     (let z = (case z of None \<Rightarrow> PyFloat (Fin 0) | Some z' \<Rightarrow> z') in
      if \<not> valid_lat lat \<or> \<not> valid_lon lon then
        (case py_shape u of
           Inl e \<Rightarrow> (Inl e, s)
         | Inr shp \<Rightarrow> (Inr (np_mul_scalar (np_ones shp) (Fin (- 9999))), s))
      else
        (case vel_mag_correction magnetic_declination magnetic_correction
                u v lat lon timestamp (Some z) None s of
           (Inl e, s') \<Rightarrow> (Inl e, s')
         | (Inr (u_cor, v_cor), s') \<Rightarrow> (Inr v_cor, s')))"

section \<open>Vocabulary of the specification\<close>

text \<open>
  The elements of a value, what it means for one of them to lie within a closed range or
  beyond one of its bounds (NaN does neither), and the array of a given shape that holds
  one value everywhere.
\<close>

fun py_elements :: "pyval \<Rightarrow> pyfloat list" where
  "py_elements (NDArray a) = data a"
| "py_elements (PyFloat x) = [x]"

fun in_range :: "real \<Rightarrow> real \<Rightarrow> pyfloat \<Rightarrow> bool" where
  "in_range lo hi (Fin r) = (lo \<le> r \<and> r \<le> hi)"
| "in_range lo hi NaN = False"

fun out_of_range :: "real \<Rightarrow> real \<Rightarrow> pyfloat \<Rightarrow> bool" where
  "out_of_range lo hi (Fin r) = (r < lo \<or> hi < r)"
| "out_of_range lo hi NaN = False"

definition np_full :: "nat list \<Rightarrow> pyfloat \<Rightarrow> ndarray" where
  "np_full shp c = \<lparr>shape = shp, data = replicate (prod_list shp) c\<rparr>"

text \<open>
  One component of the orchestrator's result, every element multiplied by a unit factor;
  a failure of the orchestrator is passed on.
\<close>

definition scaled_component ::
  "(ndarray \<times> ndarray \<Rightarrow> ndarray) \<Rightarrow> real \<Rightarrow> (error + ndarray \<times> ndarray) \<times> 's
     \<Rightarrow> (error + ndarray) \<times> 's" where
  "scaled_component sel factor r =
     (case r of
        (Inl e, s') \<Rightarrow> (Inl e, s')
      | (Inr uv, s') \<Rightarrow> (Inr (np_mul_scalar (sel uv) (Fin factor)), s'))"

text \<open>
  The angle that belongs to element \<open>i\<close> of the velocity: the one angle when \<open>theta\<close>
  is a number or an array of shape \<open>()\<close>, element \<open>i\<close> of \<open>theta\<close> otherwise.
\<close>

definition theta_at :: "pyval \<Rightarrow> nat \<Rightarrow> pyfloat" where
  "theta_at theta i =
     (if shape (np_asarray theta) = [] then data (np_asarray theta) ! 0
      else data (np_asarray theta) ! i)"

text \<open>A deterministic declination lookup answers the same whatever its state is.\<close>

definition deterministic :: "'s declination_fn \<Rightarrow> bool" where
  "deterministic md =
     (\<forall>lat lon ts z zflag s s'.
        fst (md lat lon ts z zflag s) = fst (md lat lon ts z zflag s'))"

section \<open>The imported functions, after the specification\<close>

text \<open>\<^verbatim>\<open>zflag * z\<close> for an integer flag and a number or an array.\<close>

fun py_mul_int :: "int \<Rightarrow> pyval \<Rightarrow> pyval" where
  "py_mul_int k (PyFloat x) = PyFloat (fl_mul (Fin (of_int k)) x)"
| "py_mul_int k (NDArray a) = NDArray (a\<lparr>data := map (fl_mul (Fin (of_int k))) (data a)\<rparr>)"

text \<open>
  The declination provider of the specification: a function of latitude, longitude,
  signed vertical offset and time. What model stands behind it is left open.
\<close>

type_synonym 's declination_provider =
  "pyval \<Rightarrow> pyval \<Rightarrow> pyval \<Rightarrow> pyval \<Rightarrow> 's \<Rightarrow> (error + pyval) \<times> 's"

text \<open>
  Modelled from the spec: \<^verbatim>\<open>magnetic_declination\<close> of
  \<^verbatim>\<open>ion_functions.data.generic_functions\<close> is missing from the sources. The
  specification says that the effective signed vertical coordinate passed to the
  declination provider is \<open>zflag * z\<close>, and that the provider is asked for
  \<open>declination(lat, lon, effective_vertical, timestamp)\<close>.
\<close>

definition spec_magnetic_declination :: "'s declination_provider \<Rightarrow> 's declination_fn" where
  "spec_magnetic_declination declination lat lon ntp_timestamp z zflag =
     declination lat lon (py_mul_int zflag z) ntp_timestamp"

text \<open>
  Modelled from the spec: \<^verbatim>\<open>magnetic_correction\<close> of
  \<^verbatim>\<open>ion_functions.data.generic_functions\<close> is missing from the sources. The
  specification describes a planar rotation of \<open>(u, v)\<close> by \<open>theta\<close> through the
  standard 2-D rotation matrix, with no unit conversion; its scenario rotates
  \<open>(1, 0)\<close> by 10 degrees to about \<open>(0.9848, 0.1736)\<close>, so \<open>theta\<close> is in degrees.
\<close>

fun spec_magnetic_correction :: correction_fn where
  "spec_magnetic_correction (Fin theta) (Fin u) (Fin v) =
     (Fin (u * cos (theta * pi / 180) - v * sin (theta * pi / 180)),
      Fin (u * sin (theta * pi / 180) + v * cos (theta * pi / 180)))"
| "spec_magnetic_correction _ _ _ = (NaN, NaN)"

section \<open>Stub providers\<close>

text \<open>
  Two deterministic stand-ins for the external lookup, used in the examples: one counts
  how often it is called, the other records what it is asked.
\<close>

definition stub_declination :: "pyval \<Rightarrow> nat declination_fn" where
  "stub_declination theta lat lon ntp_timestamp z zflag calls = (Inr theta, Suc calls)"

definition recording_declination ::
  "pyval \<Rightarrow> (pyval \<times> pyval \<times> pyval \<times> pyval) list declination_provider" where
  "recording_declination theta lat lon vertical time requests =
     (Inr theta, requests @ [(lat, lon, vertical, time)])"

section \<open>Facts about the validators\<close>

lemma out_of_range_iff: "out_of_range lo hi x = (fl_gt x (Fin hi) \<or> fl_lt x (Fin lo))"
  by (cases x) (auto simp: fl_gt_def)

lemma valid_lat_array:
  "valid_lat (NDArray a) = (\<forall>x\<in>set (data a). \<not> fl_gt x (Fin 90) \<and> \<not> fl_lt x (Fin (- 90)))"
  by (auto simp: np_any_def np_gt_def np_lt_def list_ex_iff)

lemma valid_lon_array:
  "valid_lon (NDArray a) = (\<forall>x\<in>set (data a). \<not> fl_gt x (Fin 180) \<and> \<not> fl_lt x (Fin (- 180)))"
  by (auto simp: np_any_def np_gt_def np_lt_def list_ex_iff)

lemma valid_lat_scalar: "valid_lat (PyFloat x) = in_range (- 90) 90 x"
  by (cases x) simp_all

lemma valid_lon_scalar: "valid_lon (PyFloat x) = in_range (- 180) 180 x"
  by (cases x) simp_all

lemma out_of_range_not_valid_lat:
  assumes "\<exists>x\<in>set (py_elements lat). out_of_range (- 90) 90 x"
  shows "\<not> valid_lat lat"
proof (cases lat)
  case (PyFloat x)
  with assms show ?thesis by (cases x) auto
next
  case (NDArray a)
  with assms show ?thesis
    by (auto simp del: valid_lat.simps simp: valid_lat_array out_of_range_iff)
qed

lemma out_of_range_not_valid_lon:
  assumes "\<exists>x\<in>set (py_elements lon). out_of_range (- 180) 180 x"
  shows "\<not> valid_lon lon"
proof (cases lon)
  case (PyFloat x)
  with assms show ?thesis by (cases x) auto
next
  case (NDArray a)
  with assms show ?thesis
    by (auto simp del: valid_lon.simps simp: valid_lon_array out_of_range_iff)
qed

text \<open>
  A number or an array whose elements all lie within the range is valid, and for a
  number, and for an array that holds no NaN, the converse holds as well.
\<close>

lemma in_range_valid_lat:
  assumes "\<forall>x\<in>set (py_elements lat). in_range (- 90) 90 x"
  shows "valid_lat lat"
proof (cases lat)
  case (PyFloat x)
  with assms show ?thesis by (simp del: valid_lat.simps add: valid_lat_scalar)
next
  case (NDArray a)
  have "\<not> fl_gt x (Fin 90) \<and> \<not> fl_lt x (Fin (- 90))" if "in_range (- 90) 90 x" for x
    using that by (cases x) (auto simp: fl_gt_def)
  with assms NDArray show ?thesis
    by (auto simp del: valid_lat.simps simp: valid_lat_array)
qed

lemma in_range_valid_lon:
  assumes "\<forall>x\<in>set (py_elements lon). in_range (- 180) 180 x"
  shows "valid_lon lon"
proof (cases lon)
  case (PyFloat x)
  with assms show ?thesis by (simp del: valid_lon.simps add: valid_lon_scalar)
next
  case (NDArray a)
  have "\<not> fl_gt x (Fin 180) \<and> \<not> fl_lt x (Fin (- 180))" if "in_range (- 180) 180 x" for x
    using that by (cases x) (auto simp: fl_gt_def)
  with assms NDArray show ?thesis
    by (auto simp del: valid_lon.simps simp: valid_lon_array)
qed

lemma valid_lat_iff_in_range:
  assumes "(\<exists>x. lat = PyFloat x) \<or> NaN \<notin> set (py_elements lat)"
  shows "valid_lat lat = (\<forall>x\<in>set (py_elements lat). in_range (- 90) 90 x)"
proof (cases lat)
  case (PyFloat x)
  then show ?thesis by (simp del: valid_lat.simps add: valid_lat_scalar)
next
  case (NDArray a)
  from assms NDArray have no_nan: "NaN \<notin> set (data a)" by simp
  have "(\<not> fl_gt x (Fin 90) \<and> \<not> fl_lt x (Fin (- 90))) = in_range (- 90) 90 x"
    if "x \<in> set (data a)" for x
  proof -
    from that no_nan have "x \<noteq> NaN" by auto
    then show ?thesis by (cases x) (auto simp: fl_gt_def)
  qed
  with NDArray show ?thesis
    by (simp del: valid_lat.simps add: valid_lat_array)
qed

lemma valid_lon_iff_in_range:
  assumes "(\<exists>x. lon = PyFloat x) \<or> NaN \<notin> set (py_elements lon)"
  shows "valid_lon lon = (\<forall>x\<in>set (py_elements lon). in_range (- 180) 180 x)"
proof (cases lon)
  case (PyFloat x)
  then show ?thesis by (simp del: valid_lon.simps add: valid_lon_scalar)
next
  case (NDArray a)
  from assms NDArray have no_nan: "NaN \<notin> set (data a)" by simp
  have "(\<not> fl_gt x (Fin 180) \<and> \<not> fl_lt x (Fin (- 180))) = in_range (- 180) 180 x"
    if "x \<in> set (data a)" for x
  proof -
    from that no_nan have "x \<noteq> NaN" by auto
    then show ?thesis by (cases x) (auto simp: fl_gt_def)
  qed
  with NDArray show ?thesis
    by (simp del: valid_lon.simps add: valid_lon_array)
qed

text \<open>
  C2 (the validators return true exactly when every element lies within the range),
  evaluated where it fails: an array that holds NaN is reported valid, although NaN
  lies in no range. The scalar branch of the same functions rejects NaN.
\<close>

theorem valid_lat_lon_nan_array:
  "valid_lat (NDArray \<lparr>shape = [1], data = [NaN]\<rparr>) \<and> \<not> in_range (- 90) 90 NaN
   \<and> valid_lon (NDArray \<lparr>shape = [1], data = [NaN]\<rparr>) \<and> \<not> in_range (- 180) 180 NaN"
  by (simp add: np_any_def np_gt_def np_lt_def fl_gt_def)

text \<open>
  C8: on an array, validity is decided by the strict comparisons alone: the array is
  valid exactly when no element is greater than the upper bound or less than the lower
  one. NaN passes both comparisons, so an array whose elements are NaN or in range is
  valid, while the number NaN is invalid.
\<close>

theorem array_validation_ignores_nan:
  "valid_lat (NDArray a)
     = (\<not> (\<exists>x\<in>set (data a). fl_gt x (Fin 90) \<or> fl_lt x (Fin (- 90))))
   \<and> valid_lon (NDArray a)
     = (\<not> (\<exists>x\<in>set (data a). fl_gt x (Fin 180) \<or> fl_lt x (Fin (- 180))))
   \<and> ((\<forall>x\<in>set (data a). x = NaN \<or> in_range (- 90) 90 x) \<longrightarrow> valid_lat (NDArray a))
   \<and> ((\<forall>x\<in>set (data a). x = NaN \<or> in_range (- 180) 180 x) \<longrightarrow> valid_lon (NDArray a))
   \<and> \<not> valid_lat (PyFloat NaN) \<and> \<not> valid_lon (PyFloat NaN)"
proof -
  have "\<not> fl_gt x (Fin hi) \<and> \<not> fl_lt x (Fin lo)" if "x = NaN \<or> in_range lo hi x" for x lo hi
    using that by (cases x) (auto simp: fl_gt_def)
  then show ?thesis
    by (auto simp del: valid_lat.simps valid_lon.simps
        simp: valid_lat_array valid_lon_array valid_lat_scalar valid_lon_scalar)
qed

theorem array_validation_ignores_nan_witness:
  "valid_lat (NDArray \<lparr>shape = [2], data = [NaN, Fin 45]\<rparr>)
   \<and> valid_lon (NDArray \<lparr>shape = [2], data = [Fin (- 125), NaN]\<rparr>)
   \<and> \<not> valid_lat (PyFloat NaN) \<and> \<not> valid_lon (PyFloat NaN)"
  using array_validation_ignores_nan [of "\<lparr>shape = [2], data = [NaN, Fin 45]\<rparr>"]
    array_validation_ignores_nan [of "\<lparr>shape = [2], data = [Fin (- 125), NaN]\<rparr>"]
  by (simp add: np_any_def np_gt_def np_lt_def fl_gt_def)

section \<open>The adapters at an invalid position\<close>

lemma fill_array: "np_mul_scalar (np_ones shp) (Fin (- 9999)) = np_full shp (Fin (- 9999))"
  by (simp add: np_mul_scalar_def np_ones_def np_full_def)

text \<open>
  C1: when an element of the latitude lies beyond \<open>[-90, 90]\<close> or an element of the
  longitude beyond \<open>[-180, 180]\<close>, each of the four adapters, given a velocity array
  \<open>u\<close>, returns the array of the shape of \<open>u\<close> filled with \<open>-9999\<close>, whatever \<open>v\<close>, the
  other coordinate, the timestamp and \<open>z\<close> are. The state of the declination lookup is
  returned as it was, for every lookup: it is not called.
\<close>

theorem invalid_position_fill:
  assumes "(\<exists>x\<in>set (py_elements lat). out_of_range (- 90) 90 x)
         \<or> (\<exists>x\<in>set (py_elements lon). out_of_range (- 180) 180 x)"
  shows "nobska_mag_corr_east md mc (NDArray u) v lat lon ts z s
           = (Inr (np_full (shape u) (Fin (- 9999))), s)
       \<and> nobska_mag_corr_north md mc (NDArray u) v lat lon ts z s
           = (Inr (np_full (shape u) (Fin (- 9999))), s)
       \<and> nortek_mag_corr_east md mc (NDArray u) v lat lon ts z s
           = (Inr (np_full (shape u) (Fin (- 9999))), s)
       \<and> nortek_mag_corr_north md mc (NDArray u) v lat lon ts z s
           = (Inr (np_full (shape u) (Fin (- 9999))), s)"
proof -
  from assms have inv: "\<not> valid_lat lat \<or> \<not> valid_lon lon"
    using out_of_range_not_valid_lat out_of_range_not_valid_lon by blast
  then show ?thesis
    by (simp add: nobska_mag_corr_east_def nobska_mag_corr_north_def
        nortek_mag_corr_east_def nortek_mag_corr_north_def fill_array)
qed

theorem invalid_position_fill_witness:
  "nobska_mag_corr_east (stub_declination (PyFloat (Fin 10))) (\<lambda>t x y. (x, y))
       (NDArray \<lparr>shape = [2], data = [Fin 3, Fin 4]\<rparr>) (PyFloat NaN)
       (PyFloat (Fin 91)) (PyFloat (Fin 0)) (PyFloat (Fin 0)) None 0
     = (Inr \<lparr>shape = [2], data = [Fin (- 9999), Fin (- 9999)]\<rparr>, 0)
   \<and> nortek_mag_corr_north (stub_declination (PyFloat (Fin 10))) (\<lambda>t x y. (x, y))
       (NDArray \<lparr>shape = [2], data = [Fin 3, Fin 4]\<rparr>) (PyFloat NaN)
       (PyFloat (Fin 45)) (NDArray \<lparr>shape = [2], data = [Fin 0, Fin (- 181)]\<rparr>)
       (PyFloat (Fin 0)) None 0
     = (Inr \<lparr>shape = [2], data = [Fin (- 9999), Fin (- 9999)]\<rparr>, 0)"
  using invalid_position_fill [of "PyFloat (Fin 91)" "PyFloat (Fin 0)"
      "stub_declination (PyFloat (Fin 10))" "\<lambda>t x y. (x, y)"
      "\<lparr>shape = [2], data = [Fin 3, Fin 4]\<rparr>" "PyFloat NaN" "PyFloat (Fin 0)" None 0]
    invalid_position_fill [of "PyFloat (Fin 45)"
      "NDArray \<lparr>shape = [2], data = [Fin 0, Fin (- 181)]\<rparr>"
      "stub_declination (PyFloat (Fin 10))" "\<lambda>t x y. (x, y)"
      "\<lparr>shape = [2], data = [Fin 3, Fin 4]\<rparr>" "PyFloat NaN" "PyFloat (Fin 0)" None 0]
  by (simp add: np_full_def numeral_2_eq_2)

text \<open>
  C9: the fill value is built from \<^verbatim>\<open>u.shape\<close>, which a plain number does not have:
  with a number for \<open>u\<close> and an invalid position, each adapter raises
  \<^verbatim>\<open>AttributeError\<close>, again without calling the lookup.
\<close>

theorem scalar_velocity_attribute_error:
  assumes "\<not> valid_lat lat \<or> \<not> valid_lon lon"
  shows "nobska_mag_corr_east md mc (PyFloat x) v lat lon ts z s = (Inl AttributeError, s)
       \<and> nobska_mag_corr_north md mc (PyFloat x) v lat lon ts z s = (Inl AttributeError, s)
       \<and> nortek_mag_corr_east md mc (PyFloat x) v lat lon ts z s = (Inl AttributeError, s)
       \<and> nortek_mag_corr_north md mc (PyFloat x) v lat lon ts z s = (Inl AttributeError, s)"
  using assms
  by (auto simp: nobska_mag_corr_east_def nobska_mag_corr_north_def
      nortek_mag_corr_east_def nortek_mag_corr_north_def)

theorem scalar_velocity_attribute_error_witness:
  "\<not> valid_lat (PyFloat (Fin 91))
   \<and> nobska_mag_corr_east (stub_declination (PyFloat (Fin 10))) (\<lambda>t x y. (x, y))
        (PyFloat (Fin 100)) (PyFloat (Fin 0)) (PyFloat (Fin 91)) (PyFloat (Fin 0))
        (PyFloat (Fin 0)) None 0 = (Inl AttributeError, 0)
   \<and> nortek_mag_corr_north (stub_declination (PyFloat (Fin 10))) (\<lambda>t x y. (x, y))
        (PyFloat (Fin 100)) (PyFloat (Fin 0)) (PyFloat (Fin 91)) (PyFloat (Fin 0))
        (PyFloat (Fin 0)) None 0 = (Inl AttributeError, 0)"
proof -
  have h: "\<not> valid_lat (PyFloat (Fin 91)) \<or> \<not> valid_lon (PyFloat (Fin 0))" by simp
  show ?thesis
    using h scalar_velocity_attribute_error [OF h, of "stub_declination (PyFloat (Fin 10))"
        "\<lambda>t x y. (x, y)" "Fin 100" "PyFloat (Fin 0)" "PyFloat (Fin 0)" None 0]
    by simp
qed

section \<open>The adapters at a valid position\<close>

lemma vel_mag_correction_default_z:
  "vel_mag_correction md mc u v lat lon ts
       (Some (case z of None \<Rightarrow> PyFloat (Fin 0) | Some z' \<Rightarrow> z')) zflag s
     = vel_mag_correction md mc u v lat lon ts z zflag s"
  by (cases z) (simp_all add: vel_mag_correction_def)

lemma vel_mag_correction_default_zflag:
  "vel_mag_correction md mc u v lat lon ts z None s
     = vel_mag_correction md mc u v lat lon ts z (Some (- 1)) s"
  by (simp add: vel_mag_correction_def)

lemma vel_mag_correction_state:
  "snd (vel_mag_correction md mc u v lat lon ts (Some z) (Some zflag) s)
     = snd (md lat lon ts z zflag s)"
  by (simp add: vel_mag_correction_def split: prod.splits sum.splits)

lemma fl_div_100: "fl_div x (Fin 100) = fl_mul x (Fin (1 / 100))"
  by (cases x) simp_all

lemma fl_mul_1: "fl_mul x (Fin 1) = x"
  by (cases x) simp_all

lemma np_div_100: "np_div_scalar a (Fin 100) = np_mul_scalar a (Fin (1 / 100))"
  by (simp add: np_div_scalar_def np_mul_scalar_def fl_div_100)

lemma np_mul_1: "np_mul_scalar a (Fin 1) = a"
  by (simp add: np_mul_scalar_def fl_mul_1)

lemma nobska_mag_corr_east_valid:
  assumes "valid_lat lat" and "valid_lon lon"
  shows "nobska_mag_corr_east md mc u v lat lon ts z s
       = scaled_component fst (1 / 100) (vel_mag_correction md mc u v lat lon ts z None s)"
  using assms
  by (simp add: nobska_mag_corr_east_def scaled_component_def vel_mag_correction_default_z
      np_div_100 split: prod.splits sum.splits)

lemma nobska_mag_corr_north_valid:
  assumes "valid_lat lat" and "valid_lon lon"
  shows "nobska_mag_corr_north md mc u v lat lon ts z s
       = scaled_component snd (1 / 100) (vel_mag_correction md mc u v lat lon ts z None s)"
  using assms
  by (simp add: nobska_mag_corr_north_def scaled_component_def vel_mag_correction_default_z
      np_div_100 split: prod.splits sum.splits)

lemma nortek_mag_corr_east_valid:
  assumes "valid_lat lat" and "valid_lon lon"
  shows "nortek_mag_corr_east md mc u v lat lon ts z s
       = scaled_component fst 1 (vel_mag_correction md mc u v lat lon ts z None s)"
  using assms
  by (simp add: nortek_mag_corr_east_def scaled_component_def vel_mag_correction_default_z
      np_mul_1 split: prod.splits sum.splits)

lemma nortek_mag_corr_north_valid:
  assumes "valid_lat lat" and "valid_lon lon"
  shows "nortek_mag_corr_north md mc u v lat lon ts z s
       = scaled_component snd 1 (vel_mag_correction md mc u v lat lon ts z None s)"
  using assms
  by (simp add: nortek_mag_corr_north_def scaled_component_def vel_mag_correction_default_z
      np_mul_1 split: prod.splits sum.splits)

lemmas adapters_valid =
  nobska_mag_corr_east_valid nobska_mag_corr_north_valid
  nortek_mag_corr_east_valid nortek_mag_corr_north_valid

lemma adapters_invalid:
  assumes "\<not> (valid_lat lat \<and> valid_lon lon)"
  shows "nobska_mag_corr_east md mc u v lat lon ts z s
           = (case py_shape u of Inl e \<Rightarrow> (Inl e, s)
              | Inr shp \<Rightarrow> (Inr (np_full shp (Fin (- 9999))), s))"
    and "nobska_mag_corr_north md mc u v lat lon ts z s
           = (case py_shape u of Inl e \<Rightarrow> (Inl e, s)
              | Inr shp \<Rightarrow> (Inr (np_full shp (Fin (- 9999))), s))"
    and "nortek_mag_corr_east md mc u v lat lon ts z s
           = (case py_shape u of Inl e \<Rightarrow> (Inl e, s)
              | Inr shp \<Rightarrow> (Inr (np_full shp (Fin (- 9999))), s))"
    and "nortek_mag_corr_north md mc u v lat lon ts z s
           = (case py_shape u of Inl e \<Rightarrow> (Inl e, s)
              | Inr shp \<Rightarrow> (Inr (np_full shp (Fin (- 9999))), s))"
  using assms
  by (auto simp: nobska_mag_corr_east_def nobska_mag_corr_north_def
      nortek_mag_corr_east_def nortek_mag_corr_north_def fill_array split: sum.splits)

lemma scaled_component_fst:
  "fst r = fst r' \<Longrightarrow> fst (scaled_component sel c r) = fst (scaled_component sel c r')"
  by (cases r; cases r') (auto simp: scaled_component_def split: sum.splits)

lemma scaled_component_snd: "snd (scaled_component sel c r) = snd r"
  by (cases r) (auto simp: scaled_component_def split: sum.splits)

lemma np_vectorize_identity_example:
  "np_vectorize (\<lambda>t x y. (x, y)) (PyFloat (Fin 0))
       (NDArray \<lparr>shape = [2], data = [Fin 100, Fin 200]\<rparr>)
       (NDArray \<lparr>shape = [2], data = [Fin 0, Fin 50]\<rparr>)
     = Inr (\<lparr>shape = [2], data = [Fin 100, Fin 200]\<rparr>, \<lparr>shape = [2], data = [Fin 0, Fin 50]\<rparr>)"
  by (simp add: np_vectorize_def np_size_def broadcast_shapes3_def broadcast_shapes_def
      upt_conv_Cons numeral_2_eq_2)

text \<open>
  C3: at a valid position each adapter returns its component of
  \<open>vel_mag_correction(u, v, lat, lon, timestamp, z)\<close>, east for the east adapters and
  north for the north ones, multiplied by \<open>1/100\<close> for Nobska and by 1 for Nortek. A
  failure of the orchestrator is passed on unchanged.
\<close>

theorem adapter_is_scaled_component:
  assumes "valid_lat lat" and "valid_lon lon"
  shows "nobska_mag_corr_east md mc u v lat lon ts z s
           = scaled_component fst (1 / 100) (vel_mag_correction md mc u v lat lon ts z None s)
       \<and> nobska_mag_corr_north md mc u v lat lon ts z s
           = scaled_component snd (1 / 100) (vel_mag_correction md mc u v lat lon ts z None s)
       \<and> nortek_mag_corr_east md mc u v lat lon ts z s
           = scaled_component fst 1 (vel_mag_correction md mc u v lat lon ts z None s)
       \<and> nortek_mag_corr_north md mc u v lat lon ts z s
           = scaled_component snd 1 (vel_mag_correction md mc u v lat lon ts z None s)"
  using assms by (simp add: adapters_valid)

theorem adapter_is_scaled_component_witness:
  "valid_lat (PyFloat (Fin 45)) \<and> valid_lon (PyFloat (Fin (- 125)))
   \<and> nobska_mag_corr_east (stub_declination (PyFloat (Fin 0))) (\<lambda>t x y. (x, y))
        (NDArray \<lparr>shape = [2], data = [Fin 100, Fin 200]\<rparr>)
        (NDArray \<lparr>shape = [2], data = [Fin 0, Fin 50]\<rparr>)
        (PyFloat (Fin 45)) (PyFloat (Fin (- 125))) (PyFloat (Fin 0)) None 0
      = (Inr \<lparr>shape = [2], data = [Fin 1, Fin 2]\<rparr>, 1)
   \<and> nortek_mag_corr_north (stub_declination (PyFloat (Fin 0))) (\<lambda>t x y. (x, y))
        (NDArray \<lparr>shape = [2], data = [Fin 100, Fin 200]\<rparr>)
        (NDArray \<lparr>shape = [2], data = [Fin 0, Fin 50]\<rparr>)
        (PyFloat (Fin 45)) (PyFloat (Fin (- 125))) (PyFloat (Fin 0)) None 0
      = (Inr \<lparr>shape = [2], data = [Fin 0, Fin 50]\<rparr>, 1)"
  using adapter_is_scaled_component [of "PyFloat (Fin 45)" "PyFloat (Fin (- 125))"
      "stub_declination (PyFloat (Fin 0))" "\<lambda>t x y. (x, y)"
      "NDArray \<lparr>shape = [2], data = [Fin 100, Fin 200]\<rparr>"
      "NDArray \<lparr>shape = [2], data = [Fin 0, Fin 50]\<rparr>" "PyFloat (Fin 0)" None "0::nat"]
  by (simp add: scaled_component_def vel_mag_correction_def stub_declination_def
      np_vectorize_identity_example np_mul_scalar_def)

section \<open>Determinism\<close>

lemma vel_mag_correction_deterministic:
  assumes "deterministic md"
  shows "fst (vel_mag_correction md mc u v lat lon ts z zflag s)
       = fst (vel_mag_correction md mc u v lat lon ts z zflag s')"
proof -
  define z0 where "z0 = (case z of None \<Rightarrow> PyFloat (Fin 0) | Some z' \<Rightarrow> z')"
  define f0 where "f0 = (case zflag of None \<Rightarrow> - 1 | Some f \<Rightarrow> (f::int))"
  obtain r t where a: "md lat lon ts z0 f0 s = (r, t)"
    by (cases "md lat lon ts z0 f0 s")
  obtain r' t' where b: "md lat lon ts z0 f0 s' = (r', t')"
    by (cases "md lat lon ts z0 f0 s'")
  from assms a b have "r = r'"
    unfolding deterministic_def by (metis fst_conv)
  with a b show ?thesis
    by (simp add: vel_mag_correction_def z0_def [symmetric] f0_def [symmetric]
        split: sum.splits prod.splits)
qed

text \<open>
  C7: with a deterministic declination lookup, what an adapter returns for given
  arguments does not depend on the state it is called in: two invocations with the same
  arguments, in whatever order and whatever happened in between, return the same value
  (the same array, or the same failure).
\<close>

theorem adapters_deterministic:
  assumes "deterministic md"
  shows "fst (nobska_mag_corr_east md mc u v lat lon ts z s)
           = fst (nobska_mag_corr_east md mc u v lat lon ts z s')
       \<and> fst (nobska_mag_corr_north md mc u v lat lon ts z s)
           = fst (nobska_mag_corr_north md mc u v lat lon ts z s')
       \<and> fst (nortek_mag_corr_east md mc u v lat lon ts z s)
           = fst (nortek_mag_corr_east md mc u v lat lon ts z s')
       \<and> fst (nortek_mag_corr_north md mc u v lat lon ts z s)
           = fst (nortek_mag_corr_north md mc u v lat lon ts z s')"
proof (cases "valid_lat lat \<and> valid_lon lon")
  case True
  have "fst (vel_mag_correction md mc u v lat lon ts z None s)
      = fst (vel_mag_correction md mc u v lat lon ts z None s')"
    by (rule vel_mag_correction_deterministic [OF assms])
  then have "fst (scaled_component sel c (vel_mag_correction md mc u v lat lon ts z None s))
      = fst (scaled_component sel c (vel_mag_correction md mc u v lat lon ts z None s'))"
    for sel c
    by (rule scaled_component_fst)
  then show ?thesis
    using True by (simp add: adapters_valid)
next
  case False
  then show ?thesis
    by (simp add: adapters_invalid split: sum.splits)
qed

theorem adapters_deterministic_witness:
  "deterministic (stub_declination (PyFloat (Fin 0)))
   \<and> fst (nobska_mag_corr_east (stub_declination (PyFloat (Fin 0))) (\<lambda>t x y. (x, y))
        (NDArray \<lparr>shape = [2], data = [Fin 100, Fin 200]\<rparr>)
        (NDArray \<lparr>shape = [2], data = [Fin 0, Fin 50]\<rparr>)
        (PyFloat (Fin 45)) (PyFloat (Fin (- 125))) (PyFloat (Fin 0)) None 0)
     = fst (nobska_mag_corr_east (stub_declination (PyFloat (Fin 0))) (\<lambda>t x y. (x, y))
        (NDArray \<lparr>shape = [2], data = [Fin 100, Fin 200]\<rparr>)
        (NDArray \<lparr>shape = [2], data = [Fin 0, Fin 50]\<rparr>)
        (PyFloat (Fin 45)) (PyFloat (Fin (- 125))) (PyFloat (Fin 0)) None 7)"
proof -
  have d: "deterministic (stub_declination (PyFloat (Fin 0)))"
    by (simp add: deterministic_def stub_declination_def)
  show ?thesis
    using d adapters_deterministic [OF d] by simp
qed

section \<open>The vertical coordinate\<close>

text \<open>
  C4: with the declination lookup modelled after the specification, the orchestrator
  called with \<open>z\<close> and \<open>zflag\<close> asks the declination provider once, at the vertical
  coordinate \<open>zflag * z\<close>; the recording provider shows \<open>-10\<close> for \<open>z = 10\<close>,
  \<open>zflag = -1\<close> and \<open>10\<close> for \<open>zflag = 1\<close>. Leaving \<open>zflag\<close> out is the same as
  passing \<open>-1\<close>.
\<close>

theorem declination_requested_at_zflag_times_z:
  "snd (vel_mag_correction (spec_magnetic_declination declination) mc
          u v lat lon ts (Some z) (Some zflag) s)
     = snd (declination lat lon (py_mul_int zflag z) ts s)
   \<and> snd (vel_mag_correction (spec_magnetic_declination (recording_declination theta)) mc
          u v lat lon ts (Some (PyFloat (Fin 10))) (Some (- 1)) [])
     = [(lat, lon, PyFloat (Fin (- 10)), ts)]
   \<and> snd (vel_mag_correction (spec_magnetic_declination (recording_declination theta)) mc
          u v lat lon ts (Some (PyFloat (Fin 10))) (Some 1) [])
     = [(lat, lon, PyFloat (Fin 10), ts)]
   \<and> vel_mag_correction md mc u v lat lon ts z' None s'
     = vel_mag_correction md mc u v lat lon ts z' (Some (- 1)) s'"
  by (simp add: vel_mag_correction_state vel_mag_correction_default_zflag
      spec_magnetic_declination_def recording_declination_def)

text \<open>
  C10: the adapters have no \<open>zflag\<close> parameter and call the orchestrator without one.
  At a valid position each adapter is its component of the orchestrator called with
  \<open>zflag = -1\<close>, and the declination lookup is called once, with the adapter's \<open>z\<close>
  and \<open>zflag = -1\<close>: \<open>z\<close> is a depth.
\<close>

theorem adapters_use_depth:
  assumes "valid_lat lat" and "valid_lon lon"
  shows "nobska_mag_corr_east md mc u v lat lon ts zo s
           = scaled_component fst (1 / 100)
               (vel_mag_correction md mc u v lat lon ts zo (Some (- 1)) s)
       \<and> nobska_mag_corr_north md mc u v lat lon ts zo s
           = scaled_component snd (1 / 100)
               (vel_mag_correction md mc u v lat lon ts zo (Some (- 1)) s)
       \<and> nortek_mag_corr_east md mc u v lat lon ts zo s
           = scaled_component fst 1
               (vel_mag_correction md mc u v lat lon ts zo (Some (- 1)) s)
       \<and> nortek_mag_corr_north md mc u v lat lon ts zo s
           = scaled_component snd 1
               (vel_mag_correction md mc u v lat lon ts zo (Some (- 1)) s)
       \<and> snd (nobska_mag_corr_east md mc u v lat lon ts (Some z) s)
           = snd (md lat lon ts z (- 1) s)
       \<and> snd (nobska_mag_corr_north md mc u v lat lon ts (Some z) s)
           = snd (md lat lon ts z (- 1) s)
       \<and> snd (nortek_mag_corr_east md mc u v lat lon ts (Some z) s)
           = snd (md lat lon ts z (- 1) s)
       \<and> snd (nortek_mag_corr_north md mc u v lat lon ts (Some z) s)
           = snd (md lat lon ts z (- 1) s)"
  using assms
  by (simp add: adapters_valid scaled_component_snd vel_mag_correction_default_zflag
      vel_mag_correction_state)

theorem adapters_use_depth_witness:
  "valid_lat (PyFloat (Fin 45)) \<and> valid_lon (PyFloat (Fin (- 125)))
   \<and> snd (nobska_mag_corr_east
            (spec_magnetic_declination (recording_declination (PyFloat (Fin 0))))
            (\<lambda>t x y. (x, y))
            (NDArray \<lparr>shape = [2], data = [Fin 100, Fin 200]\<rparr>)
            (NDArray \<lparr>shape = [2], data = [Fin 0, Fin 50]\<rparr>)
            (PyFloat (Fin 45)) (PyFloat (Fin (- 125))) (PyFloat (Fin 3600))
            (Some (PyFloat (Fin 10))) [])
      = [(PyFloat (Fin 45), PyFloat (Fin (- 125)), PyFloat (Fin (- 10)), PyFloat (Fin 3600))]"
proof -
  have lat: "valid_lat (PyFloat (Fin 45))" and lon: "valid_lon (PyFloat (Fin (- 125)))"
    by simp_all
  note depth = adapters_use_depth [OF lat lon,
      of "spec_magnetic_declination (recording_declination (PyFloat (Fin 0)))"
      "\<lambda>t x y. (x, y)"
      "NDArray \<lparr>shape = [2], data = [Fin 100, Fin 200]\<rparr>"
      "NDArray \<lparr>shape = [2], data = [Fin 0, Fin 50]\<rparr>" "PyFloat (Fin 3600)"
      "Some (PyFloat (Fin 10))" "[]" "PyFloat (Fin 10)"]
  from depth [THEN conjunct2, THEN conjunct2, THEN conjunct2, THEN conjunct2, THEN conjunct1]
  show ?thesis
    using lat lon by (simp add: spec_magnetic_declination_def recording_declination_def)
qed

text \<open>
  With the lookup modelled after the specification, this one call is a request to the
  declination provider at the vertical coordinate \<open>-z\<close>.
\<close>

lemma adapters_request_at_minus_z:
  assumes "valid_lat lat" and "valid_lon lon"
  shows "snd (nobska_mag_corr_east (spec_magnetic_declination declination) mc
                u v lat lon ts (Some z) s)
           = snd (declination lat lon (py_mul_int (- 1) z) ts s)"
    and "snd (nobska_mag_corr_north (spec_magnetic_declination declination) mc
                u v lat lon ts (Some z) s)
           = snd (declination lat lon (py_mul_int (- 1) z) ts s)"
    and "snd (nortek_mag_corr_east (spec_magnetic_declination declination) mc
                u v lat lon ts (Some z) s)
           = snd (declination lat lon (py_mul_int (- 1) z) ts s)"
    and "snd (nortek_mag_corr_north (spec_magnetic_declination declination) mc
                u v lat lon ts (Some z) s)
           = snd (declination lat lon (py_mul_int (- 1) z) ts s)"
  using assms
  by (simp_all add: adapters_valid scaled_component_snd vel_mag_correction_default_zflag
      vel_mag_correction_state spec_magnetic_declination_def)

section \<open>The result of the orchestrator\<close>

lemma broadcast_dims_same: "broadcast_dims xs xs = Some xs"
  by (induction xs) auto

lemma broadcast_dims_Nil2: "broadcast_dims xs [] = Some xs"
  by (cases xs) auto

lemma broadcast_shapes_same: "broadcast_shapes s s = Some s"
  by (simp add: broadcast_shapes_def broadcast_dims_same)

lemma broadcast_shapes_scalar: "broadcast_shapes [] s = Some s"
  by (simp add: broadcast_shapes_def)

lemma broadcast_shapes3_same:
  assumes "r = [] \<or> r = s"
  shows "broadcast_shapes3 r s s = Some s"
  using assms by (auto simp: broadcast_shapes3_def broadcast_shapes_same broadcast_shapes_scalar)

lemma concat_rows: "concat (map (\<lambda>i. take k (drop (i * k) d)) [0..<n]) = take (n * k) d"
proof (induction n)
  case 0
  show ?case by simp
next
  case (Suc n)
  have "Suc n * k = n * k + k" by simp
  then have "take (Suc n * k) d = take (n * k) d @ take k (drop (n * k) d)"
    by (simp only: take_add)
  with Suc show ?case by simp
qed

lemma broadcast_to_same:
  "length d = prod_list s \<Longrightarrow> broadcast_to s s d = d"
proof (induction s arbitrary: d)
  case Nil
  show ?case by simp
next
  case (Cons n s)
  let ?k = "prod_list s"
  have row: "broadcast_to s s (take ?k (drop (i * ?k) d)) = take ?k (drop (i * ?k) d)"
    if "i < n" for i
  proof (rule Cons.IH)
    from that have "Suc i \<le> n" by simp
    then have "Suc i * ?k \<le> n * ?k" by (rule mult_le_mono1)
    with Cons.prems show "length (take ?k (drop (i * ?k) d)) = ?k" by simp
  qed
  have "broadcast_to (n # s) (n # s) d
      = concat (map (\<lambda>i. broadcast_to s s (take ?k (drop (i * ?k) d))) [0..<n])"
    by simp
  also have "\<dots> = concat (map (\<lambda>i. take ?k (drop (i * ?k) d)) [0..<n])"
  proof -
    have "map (\<lambda>i. broadcast_to s s (take ?k (drop (i * ?k) d))) [0..<n]
        = map (\<lambda>i. take ?k (drop (i * ?k) d)) [0..<n]"
      by (rule map_cong) (simp_all add: row)
    then show ?thesis by (rule arg_cong)
  qed
  also have "\<dots> = take (n * ?k) d"
    by (rule concat_rows)
  also have "\<dots> = d"
    using Cons.prems by simp
  finally show ?case .
qed

lemma concat_replicate_rows: "concat (replicate m (replicate k x)) = replicate (m * k) x"
  by (induction m) (simp_all add: replicate_add)

lemma broadcast_to_scalar: "broadcast_to [] t [x] = replicate (prod_list t) x"
  by (induction t) (simp_all add: concat_replicate_rows)


lemma data_as_map_nth: "wf_array a \<Longrightarrow> data a = map ((!) (data a)) [0..<np_size a]"
  unfolding wf_array_def np_size_def by (metis map_nth)

lemma broadcast_theta:
  assumes wf: "wf_array (np_asarray theta)"
    and shp: "shape (np_asarray theta) = [] \<or> shape (np_asarray theta) = s"
  shows "broadcast_to (shape (np_asarray theta)) s (data (np_asarray theta))
       = map (theta_at theta) [0..<prod_list s]"
proof (cases "shape (np_asarray theta) = []")
  case True
  with wf have "length (data (np_asarray theta)) = 1"
    by (simp add: wf_array_def)
  then obtain x where x: "data (np_asarray theta) = [x]"
    by (cases "data (np_asarray theta)") auto
  have "theta_at theta i = x" for i
    using True x by (simp add: theta_at_def)
  then have "map (theta_at theta) [0..<prod_list s] = map (\<lambda>i. x) [0..<prod_list s]"
    by simp
  then have "map (theta_at theta) [0..<prod_list s] = replicate (prod_list s) x"
    by (simp add: map_replicate_const)
  with True x show ?thesis
    by (simp add: broadcast_to_scalar)
next
  case False
  with shp have eq: "shape (np_asarray theta) = s" by simp
  with wf have len: "length (data (np_asarray theta)) = prod_list s"
    by (simp add: wf_array_def)
  have "theta_at theta i = data (np_asarray theta) ! i" for i
    using False by (simp add: theta_at_def)
  then have "map (theta_at theta) [0..<prod_list s]
           = map ((!) (data (np_asarray theta))) [0..<prod_list s]"
    by simp
  also have "\<dots> = data (np_asarray theta)"
    using len map_nth [of "data (np_asarray theta)"] by simp
  finally show ?thesis
    using eq len by (simp add: broadcast_to_same)
qed

lemma np_vectorize_same_shape:
  assumes wfu: "wf_array (np_asarray u)" and wfv: "wf_array (np_asarray v)"
    and wft: "wf_array (np_asarray theta)"
    and same: "shape (np_asarray v) = shape (np_asarray u)"
    and nonempty: "np_size (np_asarray u) \<noteq> 0"
    and shp: "shape (np_asarray theta) = [] \<or> shape (np_asarray theta) = shape (np_asarray u)"
  shows "np_vectorize f theta u v
       = Inr (\<lparr>shape = shape (np_asarray u),
               data = map (\<lambda>i. fst (f (theta_at theta i) (data (np_asarray u) ! i)
                                       (data (np_asarray v) ! i)))
                          [0..<np_size (np_asarray u)]\<rparr>,
              \<lparr>shape = shape (np_asarray u),
               data = map (\<lambda>i. snd (f (theta_at theta i) (data (np_asarray u) ! i)
                                       (data (np_asarray v) ! i)))
                          [0..<np_size (np_asarray u)]\<rparr>)"
proof -
  let ?a = "np_asarray theta" and ?b = "np_asarray u" and ?c = "np_asarray v"
  let ?n = "np_size ?b"
  have sizes: "np_size ?a \<noteq> 0" "np_size ?c \<noteq> 0"
    using shp same nonempty by (auto simp: np_size_def)
  have shape3: "broadcast_shapes3 (shape ?a) (shape ?b) (shape ?b) = Some (shape ?b)"
    using shp by (simp add: broadcast_shapes3_same)
  have ta: "broadcast_to (shape ?a) (shape ?b) (data ?a) = map (theta_at theta) [0..<?n]"
    using broadcast_theta [OF wft shp] by (simp add: np_size_def)
  have tb: "broadcast_to (shape ?b) (shape ?b) (data ?b) = map ((!) (data ?b)) [0..<?n]"
    using wfu data_as_map_nth [OF wfu] by (simp add: broadcast_to_same wf_array_def)
  have tc: "broadcast_to (shape ?b) (shape ?b) (data ?c) = map ((!) (data ?c)) [0..<?n]"
    using wfv data_as_map_nth [OF wfv] same
    by (simp add: broadcast_to_same wf_array_def np_size_def)
  have zipped: "zip (map (theta_at theta) [0..<?n])
                    (zip (map ((!) (data ?b)) [0..<?n]) (map ((!) (data ?c)) [0..<?n]))
              = map (\<lambda>i. (theta_at theta i, data ?b ! i, data ?c ! i)) [0..<?n]"
    by (simp add: zip_map_map zip_same_conv_map)
  show ?thesis
    using sizes nonempty
    by (simp add: np_vectorize_def Let_def shape3 ta tb tc same zipped o_def)
qed

text \<open>
  C5, as the code has it: the orchestrator does not look at latitude and longitude (its
  result depends on them through the answer of the lookup only) and converts no unit:
  when the lookup answers \<open>theta\<close>, \<open>u\<close> and \<open>v\<close> have the same shape and at least one
  element, and \<open>theta\<close> is a single angle or has that shape, it returns a pair of
  arrays of the shape of the velocity whose elements are \<open>magnetic_correction\<close> applied
  to the elements of \<open>theta\<close>, \<open>u\<close> and \<open>v\<close>, and nothing else.
\<close>

theorem orchestrator_same_shape:
  assumes lookup: "md lat lon ts z zflag s = (Inr theta, s')"
    and wfu: "wf_array (np_asarray u)" and wfv: "wf_array (np_asarray v)"
    and wft: "wf_array (np_asarray theta)"
    and same: "shape (np_asarray v) = shape (np_asarray u)"
    and nonempty: "np_size (np_asarray u) \<noteq> 0"
    and shp: "shape (np_asarray theta) = [] \<or> shape (np_asarray theta) = shape (np_asarray u)"
  shows "(\<exists>u_cor v_cor.
            vel_mag_correction md mc u v lat lon ts (Some z) (Some zflag) s
              = (Inr (u_cor, v_cor), s')
            \<and> shape u_cor = shape (np_asarray u) \<and> shape v_cor = shape (np_asarray u)
            \<and> length (data u_cor) = np_size (np_asarray u)
            \<and> length (data v_cor) = np_size (np_asarray u)
            \<and> (\<forall>i < np_size (np_asarray u).
                  (data u_cor ! i, data v_cor ! i)
                    = mc (theta_at theta i) (data (np_asarray u) ! i) (data (np_asarray v) ! i)))
       \<and> (\<forall>lat' lon'.
            md lat' lon' ts z zflag s = md lat lon ts z zflag s \<longrightarrow>
            vel_mag_correction md mc u v lat' lon' ts (Some z) (Some zflag) s
              = vel_mag_correction md mc u v lat lon ts (Some z) (Some zflag) s)"
proof
  let ?n = "np_size (np_asarray u)"
  define u_cor where "u_cor = \<lparr>shape = shape (np_asarray u),
      data = map (\<lambda>i. fst (mc (theta_at theta i) (data (np_asarray u) ! i)
                               (data (np_asarray v) ! i))) [0..<?n]\<rparr>"
  define v_cor where "v_cor = \<lparr>shape = shape (np_asarray u),
      data = map (\<lambda>i. snd (mc (theta_at theta i) (data (np_asarray u) ! i)
                               (data (np_asarray v) ! i))) [0..<?n]\<rparr>"
  have vec: "np_vectorize mc theta u v = Inr (u_cor, v_cor)"
    unfolding u_cor_def v_cor_def
    by (rule np_vectorize_same_shape [OF wfu wfv wft same nonempty shp])
  have run: "vel_mag_correction md mc u v lat lon ts (Some z) (Some zflag) s
           = (Inr (u_cor, v_cor), s')"
    by (simp add: vel_mag_correction_def lookup vec)
  have elems: "(data u_cor ! i, data v_cor ! i)
             = mc (theta_at theta i) (data (np_asarray u) ! i) (data (np_asarray v) ! i)"
    if "i < ?n" for i
    using that by (simp add: u_cor_def v_cor_def)
  show "\<exists>u_cor v_cor.
            vel_mag_correction md mc u v lat lon ts (Some z) (Some zflag) s
              = (Inr (u_cor, v_cor), s')
            \<and> shape u_cor = shape (np_asarray u) \<and> shape v_cor = shape (np_asarray u)
            \<and> length (data u_cor) = np_size (np_asarray u)
            \<and> length (data v_cor) = np_size (np_asarray u)
            \<and> (\<forall>i < np_size (np_asarray u).
                  (data u_cor ! i, data v_cor ! i)
                    = mc (theta_at theta i) (data (np_asarray u) ! i) (data (np_asarray v) ! i))"
    using run elems by (intro exI [of _ u_cor] exI [of _ v_cor]) (simp add: u_cor_def v_cor_def)
next
  show "\<forall>lat' lon'.
            md lat' lon' ts z zflag s = md lat lon ts z zflag s \<longrightarrow>
            vel_mag_correction md mc u v lat' lon' ts (Some z) (Some zflag) s
              = vel_mag_correction md mc u v lat lon ts (Some z) (Some zflag) s"
    by (simp add: vel_mag_correction_def)
qed

theorem orchestrator_same_shape_witness:
  "\<not> valid_lat (PyFloat (Fin 91)) \<and> \<not> valid_lon (PyFloat (Fin (- 181)))
   \<and> (\<exists>u_cor v_cor.
        vel_mag_correction (stub_declination (PyFloat (Fin 0))) (\<lambda>t x y. (x, y))
            (NDArray \<lparr>shape = [2], data = [Fin 100, Fin 200]\<rparr>)
            (NDArray \<lparr>shape = [2], data = [Fin 0, Fin 50]\<rparr>)
            (PyFloat (Fin 91)) (PyFloat (Fin (- 181))) (PyFloat (Fin 3600))
            (Some (PyFloat (Fin 10))) (Some (- 1)) 0
          = (Inr (u_cor, v_cor), 1)
        \<and> shape u_cor = [2] \<and> shape v_cor = [2]
        \<and> data u_cor ! 1 = Fin 200 \<and> data v_cor ! 1 = Fin 50)"
proof -
  let ?u = "NDArray \<lparr>shape = [2], data = [Fin 100, Fin 200]\<rparr>"
  let ?v = "NDArray \<lparr>shape = [2], data = [Fin 0, Fin 50]\<rparr>"
  have lookup: "stub_declination (PyFloat (Fin 0)) (PyFloat (Fin 91)) (PyFloat (Fin (- 181)))
      (PyFloat (Fin 3600)) (PyFloat (Fin 10)) (- 1) 0 = (Inr (PyFloat (Fin 0)), 1)"
    by (simp add: stub_declination_def)
  have wf: "wf_array (np_asarray ?u)" "wf_array (np_asarray ?v)"
    "wf_array (np_asarray (PyFloat (Fin 0)))"
    by (simp_all add: wf_array_def)
  have same: "shape (np_asarray ?v) = shape (np_asarray ?u)" by simp
  have nonempty: "np_size (np_asarray ?u) \<noteq> 0" by (simp add: np_size_def)
  have shp: "shape (np_asarray (PyFloat (Fin 0))) = []
      \<or> shape (np_asarray (PyFloat (Fin 0))) = shape (np_asarray ?u)" by simp
  from orchestrator_same_shape [of "stub_declination (PyFloat (Fin 0))" "PyFloat (Fin 91)"
      "PyFloat (Fin (- 181))" "PyFloat (Fin 3600)" "PyFloat (Fin 10)" "- 1" 0
      "PyFloat (Fin 0)" 1 ?u ?v "\<lambda>t x y. (x, y)",
      OF lookup wf same nonempty shp, THEN conjunct1]
  obtain u_cor v_cor where
    run: "vel_mag_correction (stub_declination (PyFloat (Fin 0))) (\<lambda>t x y. (x, y)) ?u ?v
            (PyFloat (Fin 91)) (PyFloat (Fin (- 181))) (PyFloat (Fin 3600))
            (Some (PyFloat (Fin 10))) (Some (- 1)) 0 = (Inr (u_cor, v_cor), 1)"
    and shapes: "shape u_cor = [2]" "shape v_cor = [2]"
    and elems: "\<forall>i < np_size (np_asarray ?u).
        (data u_cor ! i, data v_cor ! i) = (data (np_asarray ?u) ! i, data (np_asarray ?v) ! i)"
    by auto
  from elems have "data u_cor ! 1 = Fin 200 \<and> data v_cor ! 1 = Fin 50"
    by (simp add: np_size_def)
  with run shapes show ?thesis by simp
qed

text \<open>
  C5 as stated (the shape of the result is the shape of the velocity for every input)
  fails where numpy broadcasts: with one velocity sample and three angles, returned for
  three positions, the result has three elements.
\<close>

theorem orchestrator_shape_counterexample:
  "vel_mag_correction
       (stub_declination (NDArray \<lparr>shape = [3], data = [Fin 0, Fin 0, Fin 0]\<rparr>))
       (\<lambda>t x y. (x, y))
       (NDArray \<lparr>shape = [1], data = [Fin 5]\<rparr>) (NDArray \<lparr>shape = [1], data = [Fin 6]\<rparr>)
       (NDArray \<lparr>shape = [3], data = [Fin 10, Fin 20, Fin 30]\<rparr>)
       (NDArray \<lparr>shape = [3], data = [Fin 0, Fin 0, Fin 0]\<rparr>)
       (PyFloat (Fin 3600)) None None 0
     = (Inr (\<lparr>shape = [3], data = [Fin 5, Fin 5, Fin 5]\<rparr>,
             \<lparr>shape = [3], data = [Fin 6, Fin 6, Fin 6]\<rparr>), 1)
   \<and> shape \<lparr>shape = [3], data = [Fin 5, Fin 5, Fin 5]\<rparr>
       \<noteq> shape \<lparr>shape = [1], data = [Fin 5]\<rparr>"
  by (simp add: vel_mag_correction_def stub_declination_def np_vectorize_def np_size_def
      broadcast_shapes3_def broadcast_shapes_def numeral_3_eq_3)

section \<open>The rotation\<close>

lemma rotation_norm:
  fixes u v r :: real
  shows "(u * cos r - v * sin r)\<^sup>2 + (u * sin r + v * cos r)\<^sup>2 = u\<^sup>2 + v\<^sup>2"
proof -
  define c where "c = cos r"
  define d where "d = sin r"
  have one: "d * d + c * c = 1"
    using sin_cos_squared_add [of r] by (simp add: c_def d_def power2_eq_square)
  have "(u * c - v * d)\<^sup>2 + (u * d + v * c)\<^sup>2 = (u\<^sup>2 + v\<^sup>2) * (d * d + c * c)"
    by (simp add: power2_eq_square algebra_simps)
  then have "(u * c - v * d)\<^sup>2 + (u * d + v * c)\<^sup>2 = u\<^sup>2 + v\<^sup>2"
    by (simp add: one)
  then show ?thesis
    by (simp add: c_def d_def)
qed

text \<open>
  C6: the rotation corrector, modelled after the specification, keeps the Euclidean
  length of every finite velocity pair for every angle, and is the identity at angle 0.
  The reals stand for the doubles, so the equalities are exact.
\<close>

theorem rotation_preserves_magnitude:
  "(\<exists>u_cor v_cor.
      spec_magnetic_correction (Fin theta) (Fin u) (Fin v) = (Fin u_cor, Fin v_cor)
      \<and> sqrt (u_cor\<^sup>2 + v_cor\<^sup>2) = sqrt (u\<^sup>2 + v\<^sup>2))
   \<and> spec_magnetic_correction (Fin 0) (Fin u) (Fin v) = (Fin u, Fin v)"
  by (simp add: rotation_norm)

text \<open>
  The orchestrator applies the corrector to every element: where the angle and the two
  velocity components of element \<open>i\<close> are finite, so is the corrected pair, and it has
  the length of the uncorrected one.
\<close>

lemma vectorized_rotation_preserves_magnitude:
  assumes wfu: "wf_array (np_asarray u)" and wfv: "wf_array (np_asarray v)"
    and wft: "wf_array (np_asarray theta)"
    and same: "shape (np_asarray v) = shape (np_asarray u)"
    and nonempty: "np_size (np_asarray u) \<noteq> 0"
    and shp: "shape (np_asarray theta) = [] \<or> shape (np_asarray theta) = shape (np_asarray u)"
    and i: "i < np_size (np_asarray u)"
    and finite: "theta_at theta i = Fin t" "data (np_asarray u) ! i = Fin a"
      "data (np_asarray v) ! i = Fin b"
  shows "\<exists>u_cor v_cor a' b'.
           np_vectorize spec_magnetic_correction theta u v = Inr (u_cor, v_cor)
           \<and> data u_cor ! i = Fin a' \<and> data v_cor ! i = Fin b'
           \<and> sqrt (a'\<^sup>2 + b'\<^sup>2) = sqrt (a\<^sup>2 + b\<^sup>2)"
  using i finite
  by (simp add: np_vectorize_same_shape [OF wfu wfv wft same nonempty shp] rotation_norm)

end
